theory Spec2Isabelle
  imports Main
begin

section \<open>The OAuth authentication worker (workers/auth-worker/src/index.ts)\<close>

text \<open>
  A shallow embedding of the worker. Strings are byte lists (the UTF-8 form of the
  JavaScript strings); every separator the code looks for (\<open>,\<close> \<open>;\<close> \<open>=\<close>) is ASCII.
  What the platform supplies (the URL parser, the upstream token endpoint, the random
  identifier, the clock) is a parameter of the model, the record \<open>Runtime\<close>. The key-value
  namespace and the log of calls to the token endpoint are threaded as explicit state,
  the record \<open>World\<close>. A thrown exception or rejected promise is \<open>Inl\<close>.
\<close>

subsection \<open>JavaScript values and string helpers\<close>

text \<open>Truthiness of a \<open>string | null\<close>: null and the empty string are falsy.\<close>

definition truthy :: "string option \<Rightarrow> bool" where
  "truthy x = (case x of None \<Rightarrow> False | Some s \<Rightarrow> s \<noteq> [])"

text \<open>The string under a truthy value (\<open>x || ''\<close>).\<close>

definition str :: "string option \<Rightarrow> string" where
  "str x = (case x of None \<Rightarrow> [] | Some s \<Rightarrow> s)"

text \<open>\<open>s.split(c)\<close> for a separator of one character: never empty; the empty
  string splits into one empty piece.\<close>

fun split_on :: "char \<Rightarrow> string \<Rightarrow> string list" where
  "split_on sep [] = [[]]"
| "split_on sep (c # cs) =
     (if c = sep then [] # split_on sep cs
      else (case split_on sep cs of [] \<Rightarrow> [[c]] | x # xs \<Rightarrow> (c # x) # xs))"

text \<open>
  The white space and line terminators that \<open>s.trim()\<close> strips, in UTF-8: tab, LF, VT, FF,
  CR, space, and the encodings of U+00A0, U+1680, U+2000 to U+200A, U+2028, U+2029,
  U+202F, U+205F, U+3000 and U+FEFF.
\<close>

definition whiteSpace :: "string list" where
  "whiteSpace =
     [[CHR 0x09], [CHR 0x0A], [CHR 0x0B], [CHR 0x0C], [CHR 0x0D], [CHR 0x20],
      [CHR 0xC2, CHR 0xA0],
      [CHR 0xE1, CHR 0x9A, CHR 0x80],
      [CHR 0xE2, CHR 0x80, CHR 0x80], [CHR 0xE2, CHR 0x80, CHR 0x81],
      [CHR 0xE2, CHR 0x80, CHR 0x82], [CHR 0xE2, CHR 0x80, CHR 0x83],
      [CHR 0xE2, CHR 0x80, CHR 0x84], [CHR 0xE2, CHR 0x80, CHR 0x85],
      [CHR 0xE2, CHR 0x80, CHR 0x86], [CHR 0xE2, CHR 0x80, CHR 0x87],
      [CHR 0xE2, CHR 0x80, CHR 0x88], [CHR 0xE2, CHR 0x80, CHR 0x89],
      [CHR 0xE2, CHR 0x80, CHR 0x8A],
      [CHR 0xE2, CHR 0x80, CHR 0xA8], [CHR 0xE2, CHR 0x80, CHR 0xA9],
      [CHR 0xE2, CHR 0x80, CHR 0xAF],
      [CHR 0xE2, CHR 0x81, CHR 0x9F],
      [CHR 0xE3, CHR 0x80, CHR 0x80],
      [CHR 0xEF, CHR 0xBB, CHR 0xBF]]"

text \<open>Strip, from the start of \<open>s\<close>, every leading occurrence of one of the non-empty
  strings \<open>ws\<close>.\<close>

function stripStart :: "string list \<Rightarrow> string \<Rightarrow> string" where
  "stripStart ws s =
     (case find (\<lambda>w. w \<noteq> [] \<and> take (length w) s = w) ws of
        None \<Rightarrow> s
      | Some w \<Rightarrow> stripStart ws (drop (length w) s))"
  by pat_completeness auto

termination
proof (relation "measure (\<lambda>(ws, s). length s)")
  show "wf (measure (\<lambda>(ws, s). length s))" by simp
next
  fix ws :: "string list" and s w :: string
  assume "find (\<lambda>w. w \<noteq> [] \<and> take (length w) s = w) ws = Some w"
  then have "w \<noteq> []" and t: "take (length w) s = w"
    by (auto simp: find_Some_iff)
  from t have "length (take (length w) s) = length w" by simp
  then have "length w \<le> length s" by simp
  with \<open>w \<noteq> []\<close> show "((ws, drop (length w) s), (ws, s)) \<in> measure (\<lambda>(ws, s). length s)"
    by (cases w) auto
qed

declare stripStart.simps [simp del]

text \<open>\<open>s.trim()\<close>: the white space is stripped at the start and, read backwards, at the
  end.\<close>

definition trim :: "string \<Rightarrow> string" where
  "trim s = rev (stripStart (map rev whiteSpace) (rev (stripStart whiteSpace s)))"

text \<open>The decimal form of a non-negative integer, as a template literal prints it.\<close>

fun toString :: "nat \<Rightarrow> string" where
  "toString n =
     (if n < 10 then [''0123456789'' ! n]
      else toString (n div 10) @ [''0123456789'' ! (n mod 10)])"

declare toString.simps [simp del]

text \<open>\<open>parts.join('; ')\<close>.\<close>

fun join :: "string \<Rightarrow> string list \<Rightarrow> string" where
  "join sep [] = []"
| "join sep [x] = x"
| "join sep (x # y # ys) = x @ sep @ join sep (y # ys)"

text \<open>Percent-encoding of one byte, upper-case hexadecimal.\<close>

definition pctEncode :: "char \<Rightarrow> string" where
  "pctEncode c =
     [CHR ''%'', ''0123456789ABCDEF'' ! (of_char c div 16), ''0123456789ABCDEF'' ! (of_char c mod 16)]"

definition alnum :: "char \<Rightarrow> bool" where
  "alnum c = (c \<in> set ''ABCDEFGHIJKLMNOPQRSTUVWXYZabcdefghijklmnopqrstuvwxyz0123456789'')"

text \<open>\<open>encodeURIComponent\<close>: letters, digits and \<open>- _ . ! ~ * ' ( )\<close> stay, every other
  byte is percent-encoded.\<close>

definition encodeURIComponent :: "string \<Rightarrow> string" where
  "encodeURIComponent s =
     concat (map (\<lambda>c. if alnum c \<or> c \<in> set ''-_.!~*()'' \<or> c = CHR 0x27 then [c] else pctEncode c) s)"

text \<open>The serialiser of \<open>URLSearchParams\<close> (application/x-www-form-urlencoded): letters,
  digits and \<open>* - . _\<close> stay, a space becomes \<open>+\<close>, every other byte is percent-encoded.\<close>

definition formEncode :: "string \<Rightarrow> string" where
  "formEncode s =
     concat (map (\<lambda>c. if alnum c \<or> c \<in> set ''*-._'' then [c]
                       else if c = CHR '' '' then ''+'' else pctEncode c) s)"

definition URL_toString :: "string \<Rightarrow> (string \<times> string) list \<Rightarrow> string" where
  "URL_toString base params =
     base @ ''?'' @ join ''&'' (map (\<lambda>(k, v). formEncode k @ ''='' @ formEncode v) params)"

subsection \<open>Data model\<close>

record Env =
  GOOGLE_CLIENT_ID :: string
  GOOGLE_CLIENT_SECRET :: string
  ALLOWED_ORIGINS :: string

record TokenData =
  refresh_token :: string
  created :: int

record GoogleTokenResponse =
  access_token :: string
  expires_in :: int
  refresh_token :: "string option"
  token_type :: string
  error :: "string option"
  error_description :: "string option"

text \<open>A parsed URL. The field \<open>parsed_url\<close> of a request is \<open>new URL(request.url)\<close>;
  \<open>searchParams\<close> maps a name to what \<open>searchParams.get\<close> returns for it.\<close>

record URL =
  origin :: string
  pathname :: string
  searchParams :: "string \<rightharpoonup> string"

record Request =
  "method" :: string
  parsed_url :: URL
  headers :: "string \<rightharpoonup> string"

datatype json = JString string | JNumber int | JBool bool

text \<open>A response body: none, a text, or \<open>JSON.stringify\<close> of an object literal.\<close>

datatype Body = Null | Text string | JSON "(string \<times> json) list"

record Response =
  status :: nat
  headers :: "string \<rightharpoonup> string"
  body :: Body

text \<open>
  An entry of the KV namespace \<open>TOKENS\<close>: the stored value and the \<open>expirationTtl\<close> it was
  put with. The only writer is \<open>handleCallback\<close>, which stores \<open>JSON.stringify\<close> of a
  \<open>TokenData\<close>; the entry keeps that \<open>TokenData\<close>, which is what \<open>JSON.parse\<close> gives back.
\<close>

record KVEntry =
  kv_value :: TokenData
  expirationTtl :: nat

type_synonym KVNamespace = "string \<rightharpoonup> KVEntry"

text \<open>The mutable world: the namespace and the form bodies posted to the token endpoint
  so far, oldest first.\<close>

record World =
  TOKENS :: KVNamespace
  token_endpoint_calls :: "(string \<times> string) list list"

datatype exn = TypeError | FetchError | KVError

text \<open>
  The platform during one request: \<open>URL_origin s\<close> is \<open>new URL(s).origin\<close> and
  \<open>URL_href s\<close> is \<open>new URL(s).href\<close>, the serialisation of the parsed URL (both None
  when the parser rejects \<open>s\<close> and the caller throws TypeError), \<open>token_endpoint\<close> answers
  a form body posted to \<open>https://oauth2.googleapis.com/token\<close> (None when \<open>fetch\<close> or
  \<open>.json()\<close> rejects), \<open>randomUUID\<close> and \<open>Date_now\<close> are the values
  \<open>crypto.randomUUID()\<close> and \<open>Date.now()\<close> return.
\<close>

record Runtime =
  URL_origin :: "string \<Rightarrow> string option"
  URL_href :: "string \<Rightarrow> string option"
  token_endpoint :: "(string \<times> string) list \<Rightarrow> GoogleTokenResponse option"
  randomUUID :: string
  Date_now :: int

definition GOOGLE_SCOPES :: string where
  "GOOGLE_SCOPES = ''https://www.googleapis.com/auth/drive.appdata''"

definition SESSION_MAX_AGE :: nat where
  "SESSION_MAX_AGE = 60 * 60 * 24 * 30"

text \<open>\<open>new Response(body, {status, headers})\<close>, with the headers the code gives.\<close>

definition new_Response :: "Body \<Rightarrow> nat \<Rightarrow> (string \<rightharpoonup> string) \<Rightarrow> Response" where
  "new_Response b s h = \<lparr>status = s, headers = h, body = b\<rparr>"

text \<open>The redirect to a serialised URL: no body, the Location header only.\<close>

definition redirect :: "string \<Rightarrow> nat \<Rightarrow> Response" where
  "redirect href s = \<lparr>status = s, headers = [''Location'' \<mapsto> href], body = Null\<rparr>"

text \<open>
  \<open>Response.redirect(url, status)\<close>: the platform parses \<open>url\<close>, throws TypeError when it
  is not an absolute URL, and redirects to the serialisation of the parsed URL (which
  writes the empty path of a bare origin as \<open>/\<close> and percent-encodes the query again).
\<close>

definition Response_redirect :: "Runtime \<Rightarrow> string \<Rightarrow> nat \<Rightarrow> exn + Response" where
  "Response_redirect rt u s =
     (case URL_href rt u of None \<Rightarrow> Inl TypeError | Some href \<Rightarrow> Inr (redirect href s))"

text \<open>
  The operations of the KV binding on a key that comes from the request. The binding
  rejects the empty key, the keys \<open>.\<close> and \<open>..\<close> and every key longer than 512 bytes, and
  the call throws. The one \<open>put\<close> of the worker has the value of \<open>crypto.randomUUID()\<close> as
  its key, 36 ASCII characters that the binding accepts: it is the update of the map.
\<close>

definition validKey :: "string \<Rightarrow> bool" where
  "validKey k = (k \<noteq> [] \<and> k \<noteq> ''.'' \<and> k \<noteq> ''..'' \<and> length k \<le> 512)"

definition KV_get :: "KVNamespace \<Rightarrow> string \<Rightarrow> exn + KVEntry option" where
  "KV_get kv k = (if validKey k then Inr (kv k) else Inl KVError)"

definition KV_delete :: "KVNamespace \<Rightarrow> string \<Rightarrow> exn + KVNamespace" where
  "KV_delete kv k = (if validKey k then Inr (kv(k := None)) else Inl KVError)"

subsection \<open>Origin validation\<close>

definition getAllowedOrigins :: "Env \<Rightarrow> string list" where
  "getAllowedOrigins env = map trim (split_on CHR '','' (ALLOWED_ORIGINS env))"

definition getRequestOrigin :: "Runtime \<Rightarrow> Request \<Rightarrow> Env \<Rightarrow> exn + string" where
  "getRequestOrigin rt request env =
     (let originHeader = Request.headers request ''Origin'';
          allowedOrigins = getAllowedOrigins env;
          referer = Request.headers request ''Referer''
      in if truthy originHeader \<and> str originHeader \<in> set allowedOrigins then Inr (str originHeader)
         else if truthy referer then
           (case URL_origin rt (str referer) of
              None \<Rightarrow> Inl TypeError
            | Some refererOrigin \<Rightarrow>
                if refererOrigin \<in> set allowedOrigins then Inr refererOrigin
                else Inr (hd allowedOrigins))
         else Inr (hd allowedOrigins))"

subsection \<open>Helper functions\<close>

text \<open>\<open>cookie.match(/session=([^;]+)/)\<close>: the leftmost position where \<open>session=\<close> is
  followed by at least one character other than \<open>;\<close>; group 1 is the longest such run.\<close>

fun match_session :: "string \<Rightarrow> string option" where
  "match_session [] = None"
| "match_session (c # cs) =
     (let v = takeWhile (\<lambda>x. x \<noteq> CHR '';'') (drop 8 (c # cs))
      in if take 8 (c # cs) = ''session='' \<and> v \<noteq> [] then Some v else match_session cs)"

definition getSessionId :: "Request \<Rightarrow> string option" where
  "getSessionId request = match_session (str (Request.headers request ''Cookie''))"

definition buildSessionCookie :: "string \<Rightarrow> nat \<Rightarrow> string" where
  "buildSessionCookie sessionId maxAge =
     join ''; '' [''session='' @ sessionId, ''HttpOnly'', ''Secure'', ''SameSite=None'',
                  ''Max-Age='' @ toString maxAge, ''Path=/'']"

text \<open>The headers of the object literal in \<open>corsResponse\<close>, before \<open>...extraHeaders\<close>.\<close>

definition corsHeaders :: "string \<Rightarrow> (string \<rightharpoonup> string)" where
  "corsHeaders allowOrigin =
     [''Access-Control-Allow-Origin'' \<mapsto> allowOrigin,
      ''Access-Control-Allow-Credentials'' \<mapsto> ''true'',
      ''Access-Control-Allow-Methods'' \<mapsto> ''GET, POST, OPTIONS'',
      ''Access-Control-Allow-Headers'' \<mapsto> ''Content-Type'',
      ''Content-Type'' \<mapsto> ''application/json'']"

definition corsResponse ::
  "Runtime \<Rightarrow> Request \<Rightarrow> Env \<Rightarrow> nat \<Rightarrow> (string \<times> json) list option \<Rightarrow> (string \<rightharpoonup> string)
     \<Rightarrow> exn + Response" where
  "corsResponse rt request env st b extraHeaders =
     (case getRequestOrigin rt request env of
        Inl e \<Rightarrow> Inl e
      | Inr allowOrigin \<Rightarrow>
          Inr (new_Response (case b of None \<Rightarrow> Null | Some obj \<Rightarrow> JSON obj) st
                 (corsHeaders allowOrigin ++ extraHeaders)))"

subsection \<open>Endpoint handlers\<close>

text \<open>The \<open>authUrl\<close> that \<open>handleLogin\<close> builds, as \<open>authUrl.toString()\<close> prints it. It is
  the serialisation of a URL already, so that \<open>Response.redirect\<close> parses it to the same
  URL and redirects to it as it stands.\<close>

definition authUrl :: "Env \<Rightarrow> URL \<Rightarrow> string \<Rightarrow> string" where
  "authUrl env url loginOrigin =
     URL_toString ''https://accounts.google.com/o/oauth2/v2/auth''
       [(''client_id'', GOOGLE_CLIENT_ID env),
        (''redirect_uri'', origin url @ ''/auth/callback''),
        (''response_type'', ''code''),
        (''scope'', GOOGLE_SCOPES),
        (''access_type'', ''offline''),
        (''prompt'', ''consent''),
        (''state'', loginOrigin)]"

definition handleLogin :: "Runtime \<Rightarrow> Request \<Rightarrow> Env \<Rightarrow> URL \<Rightarrow> exn + Response" where
  "handleLogin rt request env url =
     (let originParam = searchParams url ''origin'';
          allowedOrigins = getAllowedOrigins env
      in case (if truthy originParam \<and> str originParam \<in> set allowedOrigins
               then Inr (str originParam)
               else getRequestOrigin rt request env) of
           Inl e \<Rightarrow> Inl e
         | Inr loginOrigin \<Rightarrow> Inr (redirect (authUrl env url loginOrigin) 302))"

definition handleCallback ::
  "Runtime \<Rightarrow> Request \<Rightarrow> Env \<Rightarrow> URL \<Rightarrow> World \<Rightarrow> (exn + Response) \<times> World" where
  "handleCallback rt request env url w =
     (let code = searchParams url ''code'';
          errorParam = searchParams url ''error'';
          state = searchParams url ''state'';
          allowedOrigins = getAllowedOrigins env;
          redirectOrigin =
            (if truthy state \<and> str state \<in> set allowedOrigins then str state
             else hd allowedOrigins)
      in if truthy errorParam then
           (Response_redirect rt
              (redirectOrigin @ ''?auth=error&message='' @ encodeURIComponent (str errorParam))
              302, w)
         else if \<not> truthy code then
           (Response_redirect rt (redirectOrigin @ ''?auth=error&message=no_code'') 302, w)
         else
           (let form = [(''code'', str code),
                        (''client_id'', GOOGLE_CLIENT_ID env),
                        (''client_secret'', GOOGLE_CLIENT_SECRET env),
                        (''redirect_uri'', origin url @ ''/auth/callback''),
                        (''grant_type'', ''authorization_code'')];
                w1 = w\<lparr>token_endpoint_calls := token_endpoint_calls w @ [form]\<rparr>
            in case token_endpoint rt form of
                 None \<Rightarrow> (Inl FetchError, w1)
               | Some tokens \<Rightarrow>
                   if truthy (error tokens) then
                     (Response_redirect rt
                        (redirectOrigin @ ''?auth=error&message='' @
                           encodeURIComponent
                             (if truthy (error_description tokens)
                              then str (error_description tokens)
                              else str (error tokens)))
                        302, w1)
                   else if \<not> truthy (refresh_token tokens) then
                     (Response_redirect rt
                        (redirectOrigin @ ''?auth=error&message=no_refresh_token'') 302, w1)
                   else
                     (let sessionId = randomUUID rt;
                          tokenData = \<lparr>TokenData.refresh_token = str (refresh_token tokens),
                                       created = Date_now rt\<rparr>;
                          w2 = w1\<lparr>TOKENS := (TOKENS w1)(sessionId \<mapsto>
                                  \<lparr>kv_value = tokenData, expirationTtl = SESSION_MAX_AGE\<rparr>)\<rparr>
                      in (Inr (new_Response Null 302
                                 [''Location'' \<mapsto> redirectOrigin @ ''?auth=success'',
                                  ''Set-Cookie'' \<mapsto> buildSessionCookie sessionId SESSION_MAX_AGE]),
                          w2))))"

definition handleToken ::
  "Runtime \<Rightarrow> Request \<Rightarrow> Env \<Rightarrow> World \<Rightarrow> (exn + Response) \<times> World" where
  "handleToken rt request env w =
     (let sessionId = getSessionId request
      in if \<not> truthy sessionId then
           (corsResponse rt request env 401
              (Some [(''error'', JString ''Not authenticated''), (''code'', JString ''NO_SESSION'')])
              Map.empty, w)
         else
           (case KV_get (TOKENS w) (str sessionId) of
              Inl e \<Rightarrow> (Inl e, w)
            | Inr None \<Rightarrow>
                (corsResponse rt request env 401
                   (Some [(''error'', JString ''Session expired''),
                          (''code'', JString ''SESSION_EXPIRED'')])
                   Map.empty, w)
            | Inr (Some stored) \<Rightarrow>
                (let tokenData = kv_value stored;
                     form = [(''refresh_token'', TokenData.refresh_token tokenData),
                             (''client_id'', GOOGLE_CLIENT_ID env),
                             (''client_secret'', GOOGLE_CLIENT_SECRET env),
                             (''grant_type'', ''refresh_token'')];
                     w1 = w\<lparr>token_endpoint_calls := token_endpoint_calls w @ [form]\<rparr>
                 in case token_endpoint rt form of
                      None \<Rightarrow> (Inl FetchError, w1)
                    | Some tokens \<Rightarrow>
                        if truthy (error tokens) then
                          (if error tokens = Some ''invalid_grant'' then
                             (case KV_delete (TOKENS w1) (str sessionId) of
                                Inl e \<Rightarrow> (Inl e, w1)
                              | Inr kv \<Rightarrow>
                                  (corsResponse rt request env 401
                                     (Some [(''error'', JString ''Session invalidated''),
                                            (''code'', JString ''REFRESH_FAILED'')])
                                     [''Set-Cookie'' \<mapsto> buildSessionCookie [] 0],
                                   w1\<lparr>TOKENS := kv\<rparr>))
                           else
                             (corsResponse rt request env 500
                                (Some [(''error'', JString ''Token refresh failed''),
                                       (''code'', JString ''REFRESH_ERROR'')])
                                Map.empty, w1))
                        else
                          (corsResponse rt request env 200
                             (Some [(''access_token'', JString (access_token tokens)),
                                    (''expires_in'', JNumber (expires_in tokens))])
                             Map.empty, w1))))"

definition handleLogout ::
  "Runtime \<Rightarrow> Request \<Rightarrow> Env \<Rightarrow> World \<Rightarrow> (exn + Response) \<times> World" where
  "handleLogout rt request env w =
     (let sessionId = getSessionId request
      in case (if truthy sessionId then KV_delete (TOKENS w) (str sessionId)
               else Inr (TOKENS w)) of
           Inl e \<Rightarrow> (Inl e, w)
         | Inr kv \<Rightarrow>
             (corsResponse rt request env 200 (Some [(''success'', JBool True)])
                [''Set-Cookie'' \<mapsto> buildSessionCookie [] 0], w\<lparr>TOKENS := kv\<rparr>))"

definition handleStatus ::
  "Runtime \<Rightarrow> Request \<Rightarrow> Env \<Rightarrow> World \<Rightarrow> (exn + Response) \<times> World" where
  "handleStatus rt request env w =
     (let sessionId = getSessionId request
      in if \<not> truthy sessionId then
           (corsResponse rt request env 200 (Some [(''authenticated'', JBool False)]) Map.empty, w)
         else
           (case KV_get (TOKENS w) (str sessionId) of
              Inl e \<Rightarrow> (Inl e, w)
            | Inr None \<Rightarrow>
                (corsResponse rt request env 200 (Some [(''authenticated'', JBool False)])
                   Map.empty, w)
            | Inr (Some stored) \<Rightarrow>
                (let tokenData = kv_value stored
                 in (corsResponse rt request env 200
                       (Some [(''authenticated'', JBool True),
                              (''sessionCreated'', JNumber (created tokenData))])
                       Map.empty, w))))"

subsection \<open>The top-level handler\<close>

text \<open>
  \<open>fetch\<close> is an async function whose \<open>try\<close> block returns the handlers' results without
  awaiting them. \<open>handleLogin\<close> is synchronous, so what it throws reaches the \<open>catch\<close>
  block; the other four handlers are async functions, whose rejection becomes the
  rejection of \<open>fetch\<close> itself and never enters the \<open>catch\<close> block. The preflight branch
  stands before the \<open>try\<close>. The \<open>catch\<close> block builds its answer with \<open>corsResponse\<close>,
  which can throw in turn.
\<close>

definition fetch :: "Runtime \<Rightarrow> Request \<Rightarrow> Env \<Rightarrow> World \<Rightarrow> (exn + Response) \<times> World" where
  "fetch rt request env w =
     (let url = parsed_url request
      in if method request = ''OPTIONS'' then (corsResponse rt request env 204 None Map.empty, w)
         else if pathname url = ''/auth/login'' then
           (case handleLogin rt request env url of
              Inr r \<Rightarrow> (Inr r, w)
            | Inl e \<Rightarrow>
                (corsResponse rt request env 500
                   (Some [(''error'', JString ''Internal server error'')]) Map.empty, w))
         else if pathname url = ''/auth/callback'' then handleCallback rt request env url w
         else if pathname url = ''/auth/token'' then handleToken rt request env w
         else if pathname url = ''/auth/logout'' then handleLogout rt request env w
         else if pathname url = ''/auth/status'' then handleStatus rt request env w
         else (Inr (new_Response (Text ''Not found'') 404 Map.empty), w))"

subsection \<open>A reading of the Cookie header to compare with\<close>

text \<open>
  The names of the cookies a Cookie header carries: the header is a list of
  \<open>name=value\<close> pairs separated by \<open>;\<close> and optional spaces. \<open>getSessionId\<close> does not
  use this reading; it is what the extraction is compared with.
\<close>

definition cookie_names :: "string \<Rightarrow> string list" where
  "cookie_names h =
     map (\<lambda>p. takeWhile (\<lambda>c. c \<noteq> CHR ''='') (dropWhile (\<lambda>c. c = CHR '' '') p))
       (split_on CHR '';'' h)"

subsection \<open>The resolution of an origin among candidates\<close>

text \<open>
  The first candidate that is present, non-empty and on the allow-list, and the first
  entry of the allow-list when there is none. The handlers do not call it; it is
  what their resolution of an origin is compared with.
\<close>

fun first_allowed :: "string list \<Rightarrow> string option list \<Rightarrow> string" where
  "first_allowed allowedOrigins [] = hd allowedOrigins"
| "first_allowed allowedOrigins (c # cs) =
     (if truthy c \<and> str c \<in> set allowedOrigins then str c
      else first_allowed allowedOrigins cs)"

subsection \<open>A configuration, a platform and a store to run the handlers on\<close>

definition example_env :: Env where
  "example_env =
     \<lparr>GOOGLE_CLIENT_ID = ''client-id'', GOOGLE_CLIENT_SECRET = ''client-secret'',
      ALLOWED_ORIGINS = ''https://a.example.com, https://b.example.com''\<rparr>"

text \<open>The URL parser at the strings the examples use: \<open>not a url\<close> has no scheme, so
  \<open>new URL\<close> throws on it, as on every string the tables do not list; the serialisation
  of a bare origin with a query has the path \<open>/\<close>.\<close>

definition example_URL_origin :: "string \<Rightarrow> string option" where
  "example_URL_origin s =
     (if s = ''https://b.example.com/settings'' then Some ''https://b.example.com''
      else if s = ''https://evil.example.net/'' then Some ''https://evil.example.net''
      else None)"

definition example_URL_href :: "string \<Rightarrow> string option" where
  "example_URL_href s =
     (if s = ''https://a.example.com?auth=error&message=no_refresh_token''
        then Some ''https://a.example.com/?auth=error&message=no_refresh_token''
      else if s = ''https://b.example.com?auth=error&message=access_denied''
        then Some ''https://b.example.com/?auth=error&message=access_denied''
      else None)"

definition tokens_ok :: "string option \<Rightarrow> GoogleTokenResponse" where
  "tokens_ok r =
     \<lparr>access_token = ''at-1'', expires_in = 3599, refresh_token = r, token_type = ''Bearer'',
      error = None, error_description = None\<rparr>"

definition tokens_error :: "string \<Rightarrow> GoogleTokenResponse" where
  "tokens_error e =
     \<lparr>access_token = [], expires_in = 0, refresh_token = None, token_type = [],
      error = Some e, error_description = None\<rparr>"

text \<open>A token endpoint: it accepts the code \<open>code-1\<close> with a refresh token and the code
  \<open>code-2\<close> without one, refreshes \<open>rt-1\<close>, reports \<open>rt-2\<close> as revoked and is
  unavailable for every other refresh token.\<close>

definition example_token_endpoint :: "(string \<times> string) list \<Rightarrow> GoogleTokenResponse option" where
  "example_token_endpoint form =
     (if map_of form ''grant_type'' = Some ''authorization_code'' then
        (if map_of form ''code'' = Some ''code-1'' then Some (tokens_ok (Some ''rt-9''))
         else if map_of form ''code'' = Some ''code-2'' then Some (tokens_ok None)
         else Some (tokens_error ''invalid_grant''))
      else if map_of form ''grant_type'' = Some ''refresh_token'' then
        (if map_of form ''refresh_token'' = Some ''rt-1'' then Some (tokens_ok None)
         else if map_of form ''refresh_token'' = Some ''rt-2'' then Some (tokens_error ''invalid_grant'')
         else Some (tokens_error ''temporarily_unavailable''))
      else None)"

definition example_runtime :: Runtime where
  "example_runtime =
     \<lparr>URL_origin = example_URL_origin, URL_href = example_URL_href,
      token_endpoint = example_token_endpoint,
      randomUUID = ''0b0e7a52-5a3c-4c55-9d0e-3f6c1f0a9e11'', Date_now = 1700000000000\<rparr>"

definition example_world :: World where
  "example_world =
     \<lparr>TOKENS =
        [''s1'' \<mapsto> \<lparr>kv_value = \<lparr>TokenData.refresh_token = ''rt-1'', created = 1690000000000\<rparr>,
                    expirationTtl = SESSION_MAX_AGE\<rparr>,
         ''s2'' \<mapsto> \<lparr>kv_value = \<lparr>TokenData.refresh_token = ''rt-2'', created = 1690000000001\<rparr>,
                    expirationTtl = SESSION_MAX_AGE\<rparr>,
         ''s3'' \<mapsto> \<lparr>kv_value = \<lparr>TokenData.refresh_token = ''rt-3'', created = 1690000000002\<rparr>,
                    expirationTtl = SESSION_MAX_AGE\<rparr>],
      token_endpoint_calls = []\<rparr>"

text \<open>A request to the worker at \<open>https://auth.example.com\<close>.\<close>

definition example_request ::
  "string \<Rightarrow> string \<Rightarrow> (string \<rightharpoonup> string) \<Rightarrow> (string \<rightharpoonup> string) \<Rightarrow> Request" where
  "example_request m path params hs =
     \<lparr>method = m,
      parsed_url = \<lparr>origin = ''https://auth.example.com'', pathname = path, searchParams = params\<rparr>,
      headers = hs\<rparr>"

section \<open>Properties\<close>

subsection \<open>Helper facts\<close>

lemma split_on_nonempty: "split_on sep s \<noteq> []"
  by (induction s) (auto split: list.splits)

lemma split_on_absent: "sep \<notin> set s \<Longrightarrow> split_on sep s = [s]"
  by (induction s) auto

lemma getAllowedOrigins_nonempty: "getAllowedOrigins env \<noteq> []"
  by (simp add: getAllowedOrigins_def split_on_nonempty)

lemma hd_allowed: "hd (getAllowedOrigins env) \<in> set (getAllowedOrigins env)"
  by (simp add: getAllowedOrigins_nonempty)

lemma example_allowed:
  "getAllowedOrigins example_env = [''https://a.example.com'', ''https://b.example.com'']"
  by (simp add: getAllowedOrigins_def example_env_def trim_def stripStart.simps whiteSpace_def)

lemma match_session_nonempty: "match_session s = Some v \<Longrightarrow> v \<noteq> []"
  by (induction s) (auto simp: Let_def split: if_splits)

text \<open>What \<open>match_session\<close> returns stands in the header right after \<open>session=\<close>, is not
  empty, has no \<open>;\<close> and ends at a \<open>;\<close> or at the end of the header.\<close>

lemma match_session_substring:
  "match_session s = Some v \<Longrightarrow>
     \<exists>p rest. s = p @ ''session='' @ v @ rest \<and> v \<noteq> [] \<and> CHR '';'' \<notin> set v \<and>
              (rest = [] \<or> hd rest = CHR '';'')"
proof (induction s)
  case Nil
  then show ?case by simp
next
  case (Cons c cs)
  define d where "d = drop 8 (c # cs)"
  let ?v = "takeWhile (\<lambda>x. x \<noteq> CHR '';'') d"
  show ?case
  proof (cases "take 8 (c # cs) = ''session='' \<and> ?v \<noteq> []")
    case True
    with Cons.prems have v: "v = ?v" by (simp add: Let_def d_def)
    have "c # cs = take 8 (c # cs) @ d"
      unfolding d_def by (simp only: append_take_drop_id)
    also have "take 8 (c # cs) = ''session=''" using True by blast
    also have "d = v @ dropWhile (\<lambda>x. x \<noteq> CHR '';'') d"
      unfolding v by (simp only: takeWhile_dropWhile_id)
    finally have "c # cs = [] @ ''session='' @ v @ dropWhile (\<lambda>x. x \<noteq> CHR '';'') d"
      by (simp only: append_Nil)
    moreover have "CHR '';'' \<notin> set v"
      unfolding v using set_takeWhileD by fastforce
    moreover have "v \<noteq> []" using True by (simp add: v)
    moreover have "dropWhile (\<lambda>x. x \<noteq> CHR '';'') d = [] \<or>
                   hd (dropWhile (\<lambda>x. x \<noteq> CHR '';'') d) = CHR '';''"
      using hd_dropWhile [of "\<lambda>x. x \<noteq> CHR '';''" d] by blast
    ultimately show ?thesis by blast
  next
    case False
    with Cons.prems have "match_session cs = Some v"
      by (auto simp: Let_def d_def split: if_splits)
    from Cons.IH [OF this] obtain p rest where
      "cs = p @ ''session='' @ v @ rest" "v \<noteq> []" "CHR '';'' \<notin> set v" "rest = [] \<or> hd rest = CHR '';''"
      by blast
    then have "c # cs = (c # p) @ ''session='' @ v @ rest" by simp
    then show ?thesis
      using \<open>v \<noteq> []\<close> \<open>CHR '';'' \<notin> set v\<close> \<open>rest = [] \<or> hd rest = CHR '';''\<close> by blast
  qed
qed

lemma session_cookie_text:
  "buildSessionCookie sid SESSION_MAX_AGE =
     ''session='' @ sid @ ''; HttpOnly; Secure; SameSite=None; Max-Age=2592000; Path=/''"
  by (simp add: buildSessionCookie_def SESSION_MAX_AGE_def toString.simps)

lemma cleared_cookie_text:
  "buildSessionCookie [] 0 = ''session=; HttpOnly; Secure; SameSite=None; Max-Age=0; Path=/''"
  by (simp add: buildSessionCookie_def toString.simps)

text \<open>The routes of \<open>fetch\<close> for a request that is not a preflight.\<close>

lemma fetch_routes:
  assumes "method request \<noteq> ''OPTIONS''"
  shows "pathname (parsed_url request) = ''/auth/callback'' \<Longrightarrow>
           fetch rt request env w = handleCallback rt request env (parsed_url request) w"
    and "pathname (parsed_url request) = ''/auth/token'' \<Longrightarrow>
           fetch rt request env w = handleToken rt request env w"
    and "pathname (parsed_url request) = ''/auth/logout'' \<Longrightarrow>
           fetch rt request env w = handleLogout rt request env w"
    and "pathname (parsed_url request) = ''/auth/status'' \<Longrightarrow>
           fetch rt request env w = handleStatus rt request env w"
  using assms by (simp_all add: fetch_def Let_def)

subsection \<open>Session-identifier extraction\<close>

text \<open>
  Claim C10. The extraction takes the first substring \<open>session=value\<close> of the Cookie header,
  wherever it starts. A header whose only cookie is named \<open>xsession\<close>, with any non-empty
  value \<open>v\<close> free of \<open>;\<close>, carries no cookie named \<open>session\<close>, and \<open>getSessionId\<close> still
  returns \<open>v\<close> as the session identifier.
\<close>

theorem getSessionId_foreign_cookie:
  assumes "v \<noteq> []" and "CHR '';'' \<notin> set v"
  shows "''session'' \<notin> set (cookie_names (''xsession='' @ v)) \<and>
         getSessionId \<lparr>method = m, parsed_url = u, headers = [''Cookie'' \<mapsto> ''xsession='' @ v]\<rparr>
           = Some v"
proof -
  have tw: "takeWhile (\<lambda>x. x \<noteq> CHR '';'') v = v"
    using assms(2) by (induction v) auto
  have "CHR '';'' \<notin> set (''xsession='' @ v)"
    using assms(2) by simp
  then have "split_on CHR '';'' (''xsession='' @ v) = [''xsession='' @ v]"
    by (rule split_on_absent)
  then have "cookie_names (''xsession='' @ v) = [''xsession'']"
    by (simp add: cookie_names_def)
  moreover have "getSessionId \<lparr>method = m, parsed_url = u, headers = [''Cookie'' \<mapsto> ''xsession='' @ v]\<rparr>
           = Some v"
    using assms(1) by (simp add: getSessionId_def str_def Let_def tw)
  ultimately show ?thesis by simp
qed

text \<open>The header \<open>xsession=v\<close> of the claim.\<close>

theorem getSessionId_foreign_cookie_witness:
  "''session'' \<notin> set (cookie_names ''xsession=v'') \<and>
   getSessionId (example_request ''GET'' ''/auth/status'' Map.empty [''Cookie'' \<mapsto> ''xsession=v''])
     = Some ''v''"
  using getSessionId_foreign_cookie [of "''v''" "''GET''"
      "\<lparr>origin = ''https://auth.example.com'', pathname = ''/auth/status'', searchParams = Map.empty\<rparr>"]
  by (simp add: example_request_def)

subsection \<open>The callback\<close>

text \<open>The whole result of the success path of \<open>handleCallback\<close>.\<close>

lemma handleCallback_success:
  assumes "\<not> truthy (searchParams url ''error'')"
    and "truthy (searchParams url ''code'')"
    and "token_endpoint rt
           [(''code'', str (searchParams url ''code'')),
            (''client_id'', GOOGLE_CLIENT_ID env),
            (''client_secret'', GOOGLE_CLIENT_SECRET env),
            (''redirect_uri'', origin url @ ''/auth/callback''),
            (''grant_type'', ''authorization_code'')] = Some tokens"
    and "\<not> truthy (error tokens)"
    and "truthy (refresh_token tokens)"
  shows "handleCallback rt request env url w =
           (Inr (new_Response Null 302
                   [''Location'' \<mapsto>
                      first_allowed (getAllowedOrigins env) [searchParams url ''state'']
                        @ ''?auth=success'',
                    ''Set-Cookie'' \<mapsto> buildSessionCookie (randomUUID rt) SESSION_MAX_AGE]),
            w\<lparr>token_endpoint_calls := token_endpoint_calls w @
                  [[(''code'', str (searchParams url ''code'')),
                    (''client_id'', GOOGLE_CLIENT_ID env),
                    (''client_secret'', GOOGLE_CLIENT_SECRET env),
                    (''redirect_uri'', origin url @ ''/auth/callback''),
                    (''grant_type'', ''authorization_code'')]],
               TOKENS := (TOKENS w)(randomUUID rt \<mapsto>
                  \<lparr>kv_value = \<lparr>TokenData.refresh_token = str (refresh_token tokens),
                                created = Date_now rt\<rparr>,
                   expirationTtl = SESSION_MAX_AGE\<rparr>)\<rparr>)"
  using assms by (simp add: handleCallback_def Let_def)

text \<open>
  Claim C3. A callback request with no \<open>error\<close> parameter and a code, for which the token
  endpoint answers without an error and with a non-empty refresh token \<open>r\<close>: the response
  is a 302 whose Location is the resolved origin (the \<open>state\<close> parameter when it is on the
  allow-list, the first entry otherwise) followed by \<open>?auth=success\<close>, and whose Set-Cookie
  carries the new identifier as the value of \<open>session\<close>; the store is the old one with one
  entry written, under the new identifier, holding \<open>r\<close> and the creation time with a TTL of
  30 days in seconds. The identifier is what \<open>crypto.randomUUID()\<close> returned: non-empty,
  without \<open>;\<close>, and not a key of the store, so that the written entry is the one new record.
\<close>

theorem handleCallback_creates_session:
  assumes "\<not> truthy (searchParams url ''error'')"
    and "truthy (searchParams url ''code'')"
    and "token_endpoint rt
           [(''code'', str (searchParams url ''code'')),
            (''client_id'', GOOGLE_CLIENT_ID env),
            (''client_secret'', GOOGLE_CLIENT_SECRET env),
            (''redirect_uri'', origin url @ ''/auth/callback''),
            (''grant_type'', ''authorization_code'')] = Some tokens"
    and "\<not> truthy (error tokens)"
    and "refresh_token tokens = Some r" and "r \<noteq> []"
    and "randomUUID rt \<noteq> []" and "CHR '';'' \<notin> set (randomUUID rt)"
    and "randomUUID rt \<notin> dom (TOKENS w)"
  shows "fst (handleCallback rt request env url w) =
           Inr \<lparr>status = 302,
                headers =
                  [''Location'' \<mapsto>
                     first_allowed (getAllowedOrigins env) [searchParams url ''state'']
                       @ ''?auth=success'',
                   ''Set-Cookie'' \<mapsto>
                     ''session='' @ randomUUID rt
                       @ ''; HttpOnly; Secure; SameSite=None; Max-Age=2592000; Path=/''],
                body = Null\<rparr>
         \<and> TOKENS (snd (handleCallback rt request env url w)) =
             (TOKENS w)(randomUUID rt \<mapsto>
                \<lparr>kv_value = \<lparr>TokenData.refresh_token = r, created = Date_now rt\<rparr>,
                 expirationTtl = 30 * 24 * 60 * 60\<rparr>)
         \<and> dom (TOKENS (snd (handleCallback rt request env url w))) - dom (TOKENS w) = {randomUUID rt}
         \<and> match_session (''session='' @ randomUUID rt
                       @ ''; HttpOnly; Secure; SameSite=None; Max-Age=2592000; Path=/'')
             = Some (randomUUID rt)"
proof -
  have t: "truthy (refresh_token tokens)" and s: "str (refresh_token tokens) = r"
    using assms(5,6) by (simp_all add: truthy_def str_def)
  have ttl: "SESSION_MAX_AGE = 30 * 24 * 60 * 60"
    by (simp add: SESSION_MAX_AGE_def)
  note eq = handleCallback_success [OF assms(1-4) t, of request w]
  have 1: "fst (handleCallback rt request env url w) =
           Inr \<lparr>status = 302,
                headers =
                  [''Location'' \<mapsto>
                     first_allowed (getAllowedOrigins env) [searchParams url ''state'']
                       @ ''?auth=success'',
                   ''Set-Cookie'' \<mapsto>
                     ''session='' @ randomUUID rt
                       @ ''; HttpOnly; Secure; SameSite=None; Max-Age=2592000; Path=/''],
                body = Null\<rparr>"
    by (simp add: eq new_Response_def session_cookie_text)
  have 2: "TOKENS (snd (handleCallback rt request env url w)) =
             (TOKENS w)(randomUUID rt \<mapsto>
                \<lparr>kv_value = \<lparr>TokenData.refresh_token = r, created = Date_now rt\<rparr>,
                 expirationTtl = 30 * 24 * 60 * 60\<rparr>)"
    by (simp add: eq s ttl)
  have 3: "dom (TOKENS (snd (handleCallback rt request env url w))) - dom (TOKENS w) = {randomUUID rt}"
    using assms(9) by (auto simp: 2)
  have "takeWhile (\<lambda>x. x \<noteq> CHR '';'')
          (randomUUID rt @ ''; HttpOnly; Secure; SameSite=None; Max-Age=2592000; Path=/'')
        = randomUUID rt"
    using assms(8) by (subst takeWhile_append2) auto
  then have 4: "match_session (''session='' @ randomUUID rt
                       @ ''; HttpOnly; Secure; SameSite=None; Max-Age=2592000; Path=/'')
             = Some (randomUUID rt)"
    using assms(7) by (simp add: Let_def)
  from 1 2 3 4 show ?thesis by blast
qed


text \<open>On the example platform: code \<open>code-1\<close>, state \<open>https://b.example.com\<close>.\<close>

lemma example_uuid_fresh: "randomUUID example_runtime \<notin> dom (TOKENS example_world)"
  by (simp add: example_runtime_def example_world_def)

theorem handleCallback_creates_session_witness:
  "fst (handleCallback example_runtime
          (example_request ''GET'' ''/auth/callback''
             [''code'' \<mapsto> ''code-1'', ''state'' \<mapsto> ''https://b.example.com''] Map.empty)
          example_env
          \<lparr>origin = ''https://auth.example.com'', pathname = ''/auth/callback'',
           searchParams = [''code'' \<mapsto> ''code-1'', ''state'' \<mapsto> ''https://b.example.com'']\<rparr>
          example_world) =
     Inr \<lparr>status = 302,
          headers =
            [''Location'' \<mapsto> ''https://b.example.com?auth=success'',
             ''Set-Cookie'' \<mapsto>
               ''session=0b0e7a52-5a3c-4c55-9d0e-3f6c1f0a9e11; HttpOnly; Secure; SameSite=None; Max-Age=2592000; Path=/''],
          body = Null\<rparr>
   \<and> TOKENS (snd (handleCallback example_runtime
          (example_request ''GET'' ''/auth/callback''
             [''code'' \<mapsto> ''code-1'', ''state'' \<mapsto> ''https://b.example.com''] Map.empty)
          example_env
          \<lparr>origin = ''https://auth.example.com'', pathname = ''/auth/callback'',
           searchParams = [''code'' \<mapsto> ''code-1'', ''state'' \<mapsto> ''https://b.example.com'']\<rparr>
          example_world)) ''0b0e7a52-5a3c-4c55-9d0e-3f6c1f0a9e11'' =
      Some \<lparr>kv_value = \<lparr>TokenData.refresh_token = ''rt-9'', created = 1700000000000\<rparr>,
            expirationTtl = 2592000\<rparr>"
  using handleCallback_creates_session
    [of "\<lparr>origin = ''https://auth.example.com'', pathname = ''/auth/callback'',
           searchParams = [''code'' \<mapsto> ''code-1'', ''state'' \<mapsto> ''https://b.example.com'']\<rparr>"
        example_runtime example_env "tokens_ok (Some ''rt-9'')" "''rt-9''" example_world
        "example_request ''GET'' ''/auth/callback''
             [''code'' \<mapsto> ''code-1'', ''state'' \<mapsto> ''https://b.example.com''] Map.empty"]
    example_uuid_fresh
  by (simp add: truthy_def str_def example_allowed tokens_ok_def example_runtime_def
      example_token_endpoint_def)

text \<open>
  Claim C4. A callback request where the provider reports an error (an \<open>error\<close> parameter, or
  an \<open>error\<close> in the token response), or the code is missing, or the token response has no
  refresh token, on a configuration whose resolved origin makes the redirect URL one the
  platform parses: the response is the 302 that \<open>Response.redirect\<close> builds for the
  resolved origin followed by \<open>?auth=error&message=\<close> and the reason, which is
  \<open>no_refresh_token\<close> when the token response has no error and no refresh token; its
  Location is the serialisation \<open>href\<close> of that URL. The store is unchanged, whether or not
  the URL parses.
\<close>

theorem handleCallback_error_redirect:
  assumes "truthy (searchParams url ''error'') \<or> \<not> truthy (searchParams url ''code'') \<or>
           (token_endpoint rt
              [(''code'', str (searchParams url ''code'')),
               (''client_id'', GOOGLE_CLIENT_ID env),
               (''client_secret'', GOOGLE_CLIENT_SECRET env),
               (''redirect_uri'', origin url @ ''/auth/callback''),
               (''grant_type'', ''authorization_code'')] = Some tokens
            \<and> (truthy (error tokens) \<or> \<not> truthy (refresh_token tokens)))"
  shows "fst (handleCallback rt request env url w) =
           Response_redirect rt
             (first_allowed (getAllowedOrigins env) [searchParams url ''state'']
                @ ''?auth=error&message='' @
                (if truthy (searchParams url ''error'')
                   then encodeURIComponent (str (searchParams url ''error''))
                 else if \<not> truthy (searchParams url ''code'') then ''no_code''
                 else if truthy (error tokens)
                   then encodeURIComponent
                          (if truthy (error_description tokens)
                           then str (error_description tokens) else str (error tokens))
                 else ''no_refresh_token''))
             302
         \<and> (URL_href rt
               (first_allowed (getAllowedOrigins env) [searchParams url ''state'']
                  @ ''?auth=error&message='' @
                  (if truthy (searchParams url ''error'')
                     then encodeURIComponent (str (searchParams url ''error''))
                   else if \<not> truthy (searchParams url ''code'') then ''no_code''
                   else if truthy (error tokens)
                     then encodeURIComponent
                            (if truthy (error_description tokens)
                             then str (error_description tokens) else str (error tokens))
                   else ''no_refresh_token'')) = Some href
             \<longrightarrow> fst (handleCallback rt request env url w) =
                   Inr \<lparr>status = 302, headers = [''Location'' \<mapsto> href], body = Null\<rparr>)
         \<and> TOKENS (snd (handleCallback rt request env url w)) = TOKENS w"
proof -
  have 1: "fst (handleCallback rt request env url w) =
           Response_redirect rt
             (first_allowed (getAllowedOrigins env) [searchParams url ''state'']
                @ ''?auth=error&message='' @
                (if truthy (searchParams url ''error'')
                   then encodeURIComponent (str (searchParams url ''error''))
                 else if \<not> truthy (searchParams url ''code'') then ''no_code''
                 else if truthy (error tokens)
                   then encodeURIComponent
                          (if truthy (error_description tokens)
                           then str (error_description tokens) else str (error tokens))
                 else ''no_refresh_token''))
             302"
    using assms by (auto simp: handleCallback_def Let_def)
  have 2: "TOKENS (snd (handleCallback rt request env url w)) = TOKENS w"
    using assms by (auto simp: handleCallback_def Let_def)
  show ?thesis
    unfolding 1 using 2 by (simp add: Response_redirect_def redirect_def)
qed

text \<open>On the example platform: code \<open>code-2\<close>, which the provider accepts without a refresh
  token. The Location is the serialised URL, with the path \<open>/\<close>.\<close>

theorem handleCallback_error_redirect_witness:
  "fst (handleCallback example_runtime
          (example_request ''GET'' ''/auth/callback'' [''code'' \<mapsto> ''code-2''] Map.empty)
          example_env
          \<lparr>origin = ''https://auth.example.com'', pathname = ''/auth/callback'',
           searchParams = [''code'' \<mapsto> ''code-2'']\<rparr>
          example_world) =
     Inr \<lparr>status = 302,
          headers = [''Location'' \<mapsto> ''https://a.example.com/?auth=error&message=no_refresh_token''],
          body = Null\<rparr>
   \<and> TOKENS (snd (handleCallback example_runtime
          (example_request ''GET'' ''/auth/callback'' [''code'' \<mapsto> ''code-2''] Map.empty)
          example_env
          \<lparr>origin = ''https://auth.example.com'', pathname = ''/auth/callback'',
           searchParams = [''code'' \<mapsto> ''code-2'']\<rparr>
          example_world)) = TOKENS example_world"
  using handleCallback_error_redirect
    [of "\<lparr>origin = ''https://auth.example.com'', pathname = ''/auth/callback'',
           searchParams = [''code'' \<mapsto> ''code-2'']\<rparr>"
        example_runtime example_env "tokens_ok None"
        "example_request ''GET'' ''/auth/callback'' [''code'' \<mapsto> ''code-2''] Map.empty"
        example_world
        "''https://a.example.com/?auth=error&message=no_refresh_token''"]
  by (simp add: truthy_def str_def example_allowed tokens_ok_def example_runtime_def
      example_token_endpoint_def example_URL_href_def Response_redirect_def redirect_def)

subsection \<open>Origin resolution\<close>

text \<open>Whatever \<open>getRequestOrigin\<close> returns is on the allow-list.\<close>

lemma getRequestOrigin_allowed:
  "getRequestOrigin rt request env = Inr h \<Longrightarrow> h \<in> set (getAllowedOrigins env)"
  by (auto simp: getRequestOrigin_def Let_def hd_allowed split: if_splits option.splits)

text \<open>
  \<open>getRequestOrigin\<close> returns the Origin header when that is non-empty and on the
  allow-list, without looking at the Referer. Otherwise, when the Referer header is
  absent, empty or a URL the platform parses (to the origin \<open>ro\<close>), it returns \<open>ro\<close> when a
  Referer is present and \<open>ro\<close> is on the allow-list, and the first entry if not.
\<close>

lemma getRequestOrigin_resolved:
  assumes "\<not> (truthy (Request.headers request ''Origin'') \<and>
              str (Request.headers request ''Origin'') \<in> set (getAllowedOrigins env)) \<Longrightarrow>
           truthy (Request.headers request ''Referer'') \<Longrightarrow>
             URL_origin rt (str (Request.headers request ''Referer'')) = Some ro"
  shows "getRequestOrigin rt request env =
           Inr (if truthy (Request.headers request ''Origin'') \<and>
                   str (Request.headers request ''Origin'') \<in> set (getAllowedOrigins env)
                then str (Request.headers request ''Origin'')
                else if truthy (Request.headers request ''Referer'') \<and>
                        ro \<in> set (getAllowedOrigins env)
                then ro else hd (getAllowedOrigins env))"
  using assms by (auto simp: getRequestOrigin_def Let_def)

text \<open>It throws when the Origin header does not decide and the Referer header is not a
  URL.\<close>

lemma getRequestOrigin_throws:
  assumes "\<not> (truthy (Request.headers request ''Origin'') \<and>
              str (Request.headers request ''Origin'') \<in> set (getAllowedOrigins env))"
    and "truthy (Request.headers request ''Referer'')"
    and "URL_origin rt (str (Request.headers request ''Referer'')) = None"
  shows "getRequestOrigin rt request env = Inl TypeError"
  using assms by (auto simp: getRequestOrigin_def Let_def)

lemma corsResponse_throws:
  "getRequestOrigin rt request env = Inl e \<Longrightarrow> corsResponse rt request env st b extra = Inl e"
  by (simp add: corsResponse_def)

lemma corsResponse_returns:
  "getRequestOrigin rt request env = Inr h \<Longrightarrow>
   corsResponse rt request env st b extra =
     Inr \<lparr>status = st, headers = corsHeaders h ++ extra,
          body = (case b of None \<Rightarrow> Null | Some obj \<Rightarrow> JSON obj)\<rparr>"
  by (simp add: corsResponse_def new_Response_def)

lemma corsHeaders_origin:
  "extra ''Access-Control-Allow-Origin'' = None \<Longrightarrow>
   (corsHeaders h ++ extra) ''Access-Control-Allow-Origin'' = Some h"
  by (simp add: corsHeaders_def map_add_def)

lemma corsHeaders_credentials:
  "extra ''Access-Control-Allow-Credentials'' = None \<Longrightarrow>
   (corsHeaders h ++ extra) ''Access-Control-Allow-Credentials'' = Some ''true''"
  by (simp add: corsHeaders_def map_add_def)

text \<open>The \<open>catch\<close> block of \<open>fetch\<close>: what \<open>handleLogin\<close> throws comes from
  \<open>getRequestOrigin\<close>, which the \<open>catch\<close> block calls again through \<open>corsResponse\<close>.\<close>

lemma handleLogin_throws_iff:
  "handleLogin rt request env url = Inl e \<Longrightarrow> getRequestOrigin rt request env = Inl e"
  by (auto simp: handleLogin_def Let_def split: if_splits sum.splits)

lemma fetch_catch_rethrows:
  assumes "method request \<noteq> ''OPTIONS''" and "pathname (parsed_url request) = ''/auth/login''"
    and "handleLogin rt request env (parsed_url request) = Inl e"
  shows "fetch rt request env w = (Inl e, w)"
  using assms handleLogin_throws_iff [OF assms(3)]
  by (simp add: fetch_def Let_def corsResponse_throws)


subsection \<open>The CORS origin\<close>

text \<open>
  Claim C2, as amended. For every request whose Origin header is non-empty and on the
  allow-list, \<open>corsResponse\<close> builds a response whose Access-Control-Allow-Origin is exactly
  that origin, whatever the Referer header is. For every request whose Origin header is
  not on the allow-list and whose Referer header is absent, empty or a URL the platform
  parses (to the origin \<open>ro\<close>), it builds a response whose header is \<open>ro\<close> when a Referer is
  present and \<open>ro\<close> is on the allow-list, and the first entry of the allow-list otherwise.
  The header is always on the allow-list, so it is never an Origin header that is not.
  The only hypothesis is on the Referer header, and only for the requests on which the
  code reads it.
\<close>

theorem corsResponse_allow_origin:
  assumes "\<not> (truthy (Request.headers request ''Origin'') \<and>
              str (Request.headers request ''Origin'') \<in> set (getAllowedOrigins env)) \<Longrightarrow>
           truthy (Request.headers request ''Referer'') \<Longrightarrow>
             URL_origin rt (str (Request.headers request ''Referer'')) = Some ro"
    and "extra ''Access-Control-Allow-Origin'' = None"
  shows "(let h = (if truthy (Request.headers request ''Origin'') \<and>
                      str (Request.headers request ''Origin'') \<in> set (getAllowedOrigins env)
                   then str (Request.headers request ''Origin'')
                   else if truthy (Request.headers request ''Referer'') \<and>
                           ro \<in> set (getAllowedOrigins env)
                   then ro else hd (getAllowedOrigins env))
          in corsResponse rt request env st b extra =
               Inr \<lparr>status = st, headers = corsHeaders h ++ extra,
                    body = (case b of None \<Rightarrow> Null | Some obj \<Rightarrow> JSON obj)\<rparr>
             \<and> (corsHeaders h ++ extra) ''Access-Control-Allow-Origin'' = Some h
             \<and> h \<in> set (getAllowedOrigins env)
             \<and> (truthy (Request.headers request ''Origin'') \<and>
                  str (Request.headers request ''Origin'') \<in> set (getAllowedOrigins env)
                  \<longrightarrow> h = str (Request.headers request ''Origin''))
             \<and> (str (Request.headers request ''Origin'') \<notin> set (getAllowedOrigins env)
                  \<longrightarrow> h \<noteq> str (Request.headers request ''Origin'')
                      \<and> h = (if truthy (Request.headers request ''Referer'') \<and>
                                 ro \<in> set (getAllowedOrigins env)
                              then ro else hd (getAllowedOrigins env))))"
proof -
  define h where "h = (if truthy (Request.headers request ''Origin'') \<and>
                      str (Request.headers request ''Origin'') \<in> set (getAllowedOrigins env)
                   then str (Request.headers request ''Origin'')
                   else if truthy (Request.headers request ''Referer'') \<and>
                           ro \<in> set (getAllowedOrigins env)
                   then ro else hd (getAllowedOrigins env))"
  have g: "getRequestOrigin rt request env = Inr h"
    unfolding h_def using assms(1) by (rule getRequestOrigin_resolved)
  have 1: "corsResponse rt request env st b extra =
               Inr \<lparr>status = st, headers = corsHeaders h ++ extra,
                    body = (case b of None \<Rightarrow> Null | Some obj \<Rightarrow> JSON obj)\<rparr>"
    using g by (rule corsResponse_returns)
  have 2: "(corsHeaders h ++ extra) ''Access-Control-Allow-Origin'' = Some h"
    using assms(2) by (rule corsHeaders_origin)
  have 3: "h \<in> set (getAllowedOrigins env)"
    using g by (rule getRequestOrigin_allowed)
  have 4: "truthy (Request.headers request ''Origin'') \<and>
             str (Request.headers request ''Origin'') \<in> set (getAllowedOrigins env)
           \<longrightarrow> h = str (Request.headers request ''Origin'')"
    by (simp add: h_def)
  have 5: "str (Request.headers request ''Origin'') \<notin> set (getAllowedOrigins env)
             \<longrightarrow> h \<noteq> str (Request.headers request ''Origin'')
                      \<and> h = (if truthy (Request.headers request ''Referer'') \<and>
                                 ro \<in> set (getAllowedOrigins env)
                              then ro else hd (getAllowedOrigins env))"
    using 3 by (auto simp: h_def)
  from 1 2 3 4 5 show ?thesis
    unfolding Let_def h_def by blast
qed

text \<open>Two requests: an allowed Origin with a Referer that is not a URL is echoed; an
  Origin and a Referer from a site that is not on the allow-list give the first entry.\<close>

theorem corsResponse_allow_origin_witness:
  "corsResponse example_runtime
     (example_request ''GET'' ''/auth/status'' Map.empty
        [''Origin'' \<mapsto> ''https://b.example.com'', ''Referer'' \<mapsto> ''not a url''])
     example_env 200 (Some [(''authenticated'', JBool False)]) Map.empty =
   Inr \<lparr>status = 200, headers = corsHeaders ''https://b.example.com'',
        body = JSON [(''authenticated'', JBool False)]\<rparr>
   \<and> corsResponse example_runtime
     (example_request ''GET'' ''/auth/status'' Map.empty
        [''Origin'' \<mapsto> ''https://evil.example.net'', ''Referer'' \<mapsto> ''https://evil.example.net/''])
     example_env 200 (Some [(''authenticated'', JBool False)]) Map.empty =
   Inr \<lparr>status = 200, headers = corsHeaders ''https://a.example.com'',
        body = JSON [(''authenticated'', JBool False)]\<rparr>"
  using corsResponse_allow_origin
    [of "example_request ''GET'' ''/auth/status'' Map.empty
        [''Origin'' \<mapsto> ''https://b.example.com'', ''Referer'' \<mapsto> ''not a url'']"
        example_env example_runtime "''x''" Map.empty 200
        "Some [(''authenticated'', JBool False)]"]
    corsResponse_allow_origin
    [of "example_request ''GET'' ''/auth/status'' Map.empty
        [''Origin'' \<mapsto> ''https://evil.example.net'', ''Referer'' \<mapsto> ''https://evil.example.net/'']"
        example_env example_runtime "''https://evil.example.net''" Map.empty 200
        "Some [(''authenticated'', JBool False)]"]
  by (simp add: Let_def example_request_def example_runtime_def example_URL_origin_def
      truthy_def str_def example_allowed)

text \<open>
  The claim as first stated fails: with an Origin header that is not on the allow-list and
  a Referer from the second allowed origin, the header is that second origin, not the
  first entry.
\<close>

theorem cors_origin_counterexample:
  "fst (fetch example_runtime
          (example_request ''GET'' ''/auth/status'' Map.empty
             [''Origin'' \<mapsto> ''https://evil.example.net'',
              ''Referer'' \<mapsto> ''https://b.example.com/settings''])
          example_env example_world) =
     Inr \<lparr>status = 200, headers = corsHeaders ''https://b.example.com'',
          body = JSON [(''authenticated'', JBool False)]\<rparr>
   \<and> ''https://evil.example.net'' \<notin> set (getAllowedOrigins example_env)
   \<and> hd (getAllowedOrigins example_env) = ''https://a.example.com''"
  by (simp add: fetch_def handleStatus_def getSessionId_def corsResponse_def getRequestOrigin_def
      new_Response_def Let_def example_request_def example_runtime_def example_URL_origin_def
      truthy_def str_def example_allowed)


subsection \<open>Which responses carry the CORS headers\<close>

lemma cors_built:
  assumes "corsResponse rt request env st b extra = Inr r"
    and "extra ''Access-Control-Allow-Origin'' = None"
    and "extra ''Access-Control-Allow-Credentials'' = None"
  shows "(\<exists>h. getRequestOrigin rt request env = Inr h \<and>
              Response.headers r ''Access-Control-Allow-Origin'' = Some h) \<and>
         Response.headers r ''Access-Control-Allow-Credentials'' = Some ''true''"
proof (cases "getRequestOrigin rt request env")
  case (Inl e)
  with assms(1) show ?thesis by (simp add: corsResponse_def)
next
  case (Inr h)
  from corsResponse_returns [OF Inr] assms(1)
  have "r = \<lparr>status = st, headers = corsHeaders h ++ extra,
          body = (case b of None \<Rightarrow> Null | Some obj \<Rightarrow> JSON obj)\<rparr>" by simp
  then show ?thesis
    using Inr assms(2,3)
      corsHeaders_origin [where extra = extra and h = h]
      corsHeaders_credentials [where extra = extra and h = h] by simp
qed

lemma handleToken_cors:
  assumes "fst (handleToken rt request env w) = Inr r"
  shows "(\<exists>h. getRequestOrigin rt request env = Inr h \<and>
              Response.headers r ''Access-Control-Allow-Origin'' = Some h) \<and>
         Response.headers r ''Access-Control-Allow-Credentials'' = Some ''true''"
  using assms
  by (auto simp: handleToken_def Let_def split: if_splits option.splits sum.splits
      dest!: cors_built)

lemma handleLogout_cors:
  assumes "fst (handleLogout rt request env w) = Inr r"
  shows "(\<exists>h. getRequestOrigin rt request env = Inr h \<and>
              Response.headers r ''Access-Control-Allow-Origin'' = Some h) \<and>
         Response.headers r ''Access-Control-Allow-Credentials'' = Some ''true''"
  using assms
  by (auto simp: handleLogout_def Let_def split: if_splits option.splits sum.splits
      dest!: cors_built)

lemma handleStatus_cors:
  assumes "fst (handleStatus rt request env w) = Inr r"
  shows "(\<exists>h. getRequestOrigin rt request env = Inr h \<and>
              Response.headers r ''Access-Control-Allow-Origin'' = Some h) \<and>
         Response.headers r ''Access-Control-Allow-Credentials'' = Some ''true''"
  using assms
  by (auto simp: handleStatus_def Let_def split: if_splits option.splits sum.splits
      dest!: cors_built)

lemma handleLogin_no_cors:
  assumes "handleLogin rt request env url = Inr r"
  shows "Response.headers r ''Access-Control-Allow-Origin'' = None \<and>
         Response.headers r ''Access-Control-Allow-Credentials'' = None"
  using assms
  by (auto simp: handleLogin_def Let_def redirect_def split: if_splits sum.splits)

lemma handleCallback_no_cors:
  assumes "fst (handleCallback rt request env url w) = Inr r"
  shows "Response.headers r ''Access-Control-Allow-Origin'' = None \<and>
         Response.headers r ''Access-Control-Allow-Credentials'' = None"
  using assms
  by (auto simp: handleCallback_def Let_def Response_redirect_def redirect_def new_Response_def
      split: if_splits option.splits)


text \<open>
  Claim C5, as amended. Every response to an OPTIONS request and every response of
  \<open>/auth/token\<close>, \<open>/auth/logout\<close> and \<open>/auth/status\<close> carries
  Access-Control-Allow-Origin, set to what \<open>getRequestOrigin\<close> returns, and
  Access-Control-Allow-Credentials, set to \<open>true\<close>. Every other response (the redirects of
  \<open>/auth/login\<close> and \<open>/auth/callback\<close>, the 404 of an unknown path) carries neither.
\<close>

theorem fetch_cors_headers:
  assumes "fst (fetch rt request env w) = Inr r"
  shows "(method request = ''OPTIONS'' \<or>
          pathname (parsed_url request) \<in> {''/auth/token'', ''/auth/logout'', ''/auth/status''}
          \<longrightarrow> (\<exists>h. getRequestOrigin rt request env = Inr h \<and>
                    Response.headers r ''Access-Control-Allow-Origin'' = Some h) \<and>
               Response.headers r ''Access-Control-Allow-Credentials'' = Some ''true'')
       \<and> (\<not> (method request = ''OPTIONS'' \<or>
              pathname (parsed_url request) \<in> {''/auth/token'', ''/auth/logout'', ''/auth/status''})
          \<longrightarrow> Response.headers r ''Access-Control-Allow-Origin'' = None \<and>
               Response.headers r ''Access-Control-Allow-Credentials'' = None)"
proof (cases "method request = ''OPTIONS''")
  case True
  with assms have "corsResponse rt request env 204 None Map.empty = Inr r"
    by (simp add: fetch_def Let_def)
  from cors_built [OF this] True show ?thesis by simp
next
  case False
  note m = False
  consider (login) "pathname (parsed_url request) = ''/auth/login''"
    | (callback) "pathname (parsed_url request) = ''/auth/callback''"
    | (token) "pathname (parsed_url request) = ''/auth/token''"
    | (logout) "pathname (parsed_url request) = ''/auth/logout''"
    | (status) "pathname (parsed_url request) = ''/auth/status''"
    | (other) "pathname (parsed_url request) \<notin>
        {''/auth/login'', ''/auth/callback'', ''/auth/token'', ''/auth/logout'', ''/auth/status''}"
    by blast
  then show ?thesis
  proof cases
    case login
    show ?thesis
    proof (cases "handleLogin rt request env (parsed_url request)")
      case (Inl e)
      from fetch_catch_rethrows [OF m login Inl] assms show ?thesis by simp
    next
      case (Inr r')
      with assms m login have "r' = r" by (simp add: fetch_def Let_def)
      with handleLogin_no_cors [OF Inr] m login show ?thesis by simp
    qed
  next
    case callback
    with assms m have "fst (handleCallback rt request env (parsed_url request) w) = Inr r"
      by (simp add: fetch_def Let_def)
    from handleCallback_no_cors [OF this] m callback show ?thesis by simp
  next
    case token
    with assms m have "fst (handleToken rt request env w) = Inr r"
      by (simp add: fetch_def Let_def)
    from handleToken_cors [OF this] token show ?thesis by simp
  next
    case logout
    with assms m have "fst (handleLogout rt request env w) = Inr r"
      by (simp add: fetch_def Let_def)
    from handleLogout_cors [OF this] logout show ?thesis by simp
  next
    case status
    with assms m have "fst (handleStatus rt request env w) = Inr r"
      by (simp add: fetch_def Let_def)
    from handleStatus_cors [OF this] status show ?thesis by simp
  next
    case other
    with assms m have "r = new_Response (Text ''Not found'') 404 Map.empty"
      by (auto simp: fetch_def Let_def)
    with m other show ?thesis by (simp add: new_Response_def)
  qed
qed

text \<open>A preflight request from the second allowed origin.\<close>

theorem fetch_cors_headers_witness:
  "Response.headers
     \<lparr>status = 204, headers = corsHeaders ''https://b.example.com'', body = Null\<rparr>
     ''Access-Control-Allow-Origin'' = Some ''https://b.example.com''
   \<and> Response.headers
     \<lparr>status = 204, headers = corsHeaders ''https://b.example.com'', body = Null\<rparr>
     ''Access-Control-Allow-Credentials'' = Some ''true''
   \<and> fst (fetch example_runtime
          (example_request ''OPTIONS'' ''/auth/token'' Map.empty [''Origin'' \<mapsto> ''https://b.example.com''])
          example_env example_world) =
       Inr \<lparr>status = 204, headers = corsHeaders ''https://b.example.com'', body = Null\<rparr>"
proof -
  have r: "fst (fetch example_runtime
          (example_request ''OPTIONS'' ''/auth/token'' Map.empty [''Origin'' \<mapsto> ''https://b.example.com''])
          example_env example_world) =
       Inr \<lparr>status = 204, headers = corsHeaders ''https://b.example.com'', body = Null\<rparr>"
    by (simp add: fetch_def corsResponse_def getRequestOrigin_def new_Response_def Let_def
        example_request_def truthy_def str_def example_allowed)
  have g: "getRequestOrigin example_runtime
          (example_request ''OPTIONS'' ''/auth/token'' Map.empty [''Origin'' \<mapsto> ''https://b.example.com''])
          example_env = Inr ''https://b.example.com''"
    by (simp add: getRequestOrigin_def Let_def example_request_def truthy_def str_def example_allowed)
  from fetch_cors_headers [OF r] g r show ?thesis
    by (simp add: example_request_def)
qed

text \<open>The claim as first stated fails: the response of a successful callback has the two
  headers the code writes, Location and Set-Cookie, and no CORS header.\<close>

theorem fetch_cors_headers_counterexample:
  "fst (fetch example_runtime
          (example_request ''GET'' ''/auth/callback'' [''code'' \<mapsto> ''code-1'']
             [''Origin'' \<mapsto> ''https://a.example.com''])
          example_env example_world) =
     Inr \<lparr>status = 302,
          headers =
            [''Location'' \<mapsto> ''https://a.example.com?auth=success'',
             ''Set-Cookie'' \<mapsto>
               ''session=0b0e7a52-5a3c-4c55-9d0e-3f6c1f0a9e11; HttpOnly; Secure; SameSite=None; Max-Age=2592000; Path=/''],
          body = Null\<rparr>
   \<and> [''Location'' \<mapsto> ''https://a.example.com?auth=success'',
       ''Set-Cookie'' \<mapsto>
         ''session=0b0e7a52-5a3c-4c55-9d0e-3f6c1f0a9e11; HttpOnly; Secure; SameSite=None; Max-Age=2592000; Path=/'']
        ''Access-Control-Allow-Credentials'' = None"
  by (simp add: fetch_def handleCallback_def new_Response_def Let_def example_request_def
      truthy_def str_def example_allowed example_runtime_def example_token_endpoint_def
      tokens_ok_def session_cookie_text)


subsection \<open>The three candidates of the login\<close>

text \<open>
  Claim C6, as amended. For every \<open>/auth/login\<close> request, the origin carried as \<open>state\<close> in
  the redirect to the provider is resolved in priority order: the \<open>origin\<close> query
  parameter when it is non-empty and on the allow-list; otherwise the Origin header when
  it is non-empty and on the allow-list; otherwise the origin \<open>ro\<close> of the Referer URL when
  a Referer is present and \<open>ro\<close> is on the allow-list; otherwise the first entry of the
  allow-list. The store and the call log are untouched. The Referer is read only when
  the first two candidates fail, and only then is it taken to be absent, empty or a URL
  the platform parses. On every endpoint \<open>getRequestOrigin\<close>, which the CORS responses
  use, resolves in the same way among the Origin header and the Referer only, without the
  query parameter.
\<close>

theorem login_origin_priority:
  "((\<not> (truthy (searchParams (parsed_url request) ''origin'') \<and>
          str (searchParams (parsed_url request) ''origin'') \<in> set (getAllowedOrigins env)) \<longrightarrow>
     \<not> (truthy (Request.headers request ''Origin'') \<and>
          str (Request.headers request ''Origin'') \<in> set (getAllowedOrigins env)) \<longrightarrow>
     truthy (Request.headers request ''Referer'') \<longrightarrow>
       URL_origin rt (str (Request.headers request ''Referer'')) = Some ro) \<longrightarrow>
    method request \<noteq> ''OPTIONS'' \<and> pathname (parsed_url request) = ''/auth/login'' \<longrightarrow>
      fetch rt request env w =
        (Inr (redirect
                (authUrl env (parsed_url request)
                   (if truthy (searchParams (parsed_url request) ''origin'') \<and>
                       str (searchParams (parsed_url request) ''origin'')
                         \<in> set (getAllowedOrigins env)
                    then str (searchParams (parsed_url request) ''origin'')
                    else if truthy (Request.headers request ''Origin'') \<and>
                            str (Request.headers request ''Origin'') \<in> set (getAllowedOrigins env)
                    then str (Request.headers request ''Origin'')
                    else if truthy (Request.headers request ''Referer'') \<and>
                            ro \<in> set (getAllowedOrigins env)
                    then ro else hd (getAllowedOrigins env)))
                302), w))
   \<and> ((\<not> (truthy (Request.headers request ''Origin'') \<and>
            str (Request.headers request ''Origin'') \<in> set (getAllowedOrigins env)) \<longrightarrow>
        truthy (Request.headers request ''Referer'') \<longrightarrow>
          URL_origin rt (str (Request.headers request ''Referer'')) = Some ro) \<longrightarrow>
       getRequestOrigin rt request env =
         Inr (if truthy (Request.headers request ''Origin'') \<and>
                 str (Request.headers request ''Origin'') \<in> set (getAllowedOrigins env)
              then str (Request.headers request ''Origin'')
              else if truthy (Request.headers request ''Referer'') \<and>
                      ro \<in> set (getAllowedOrigins env)
              then ro else hd (getAllowedOrigins env)))"
proof (intro conjI impI)
  assume h: "\<not> (truthy (Request.headers request ''Origin'') \<and>
            str (Request.headers request ''Origin'') \<in> set (getAllowedOrigins env)) \<longrightarrow>
        truthy (Request.headers request ''Referer'') \<longrightarrow>
          URL_origin rt (str (Request.headers request ''Referer'')) = Some ro"
  show "getRequestOrigin rt request env =
         Inr (if truthy (Request.headers request ''Origin'') \<and>
                 str (Request.headers request ''Origin'') \<in> set (getAllowedOrigins env)
              then str (Request.headers request ''Origin'')
              else if truthy (Request.headers request ''Referer'') \<and>
                      ro \<in> set (getAllowedOrigins env)
              then ro else hd (getAllowedOrigins env))"
  proof -
    from h have "\<not> (truthy (Request.headers request ''Origin'') \<and>
            str (Request.headers request ''Origin'') \<in> set (getAllowedOrigins env)) \<Longrightarrow>
        truthy (Request.headers request ''Referer'') \<Longrightarrow>
          URL_origin rt (str (Request.headers request ''Referer'')) = Some ro"
      by blast
    from getRequestOrigin_resolved [OF this] show ?thesis .
  qed
next
  assume h: "\<not> (truthy (searchParams (parsed_url request) ''origin'') \<and>
          str (searchParams (parsed_url request) ''origin'') \<in> set (getAllowedOrigins env)) \<longrightarrow>
     \<not> (truthy (Request.headers request ''Origin'') \<and>
          str (Request.headers request ''Origin'') \<in> set (getAllowedOrigins env)) \<longrightarrow>
     truthy (Request.headers request ''Referer'') \<longrightarrow>
       URL_origin rt (str (Request.headers request ''Referer'')) = Some ro"
    and r: "method request \<noteq> ''OPTIONS'' \<and> pathname (parsed_url request) = ''/auth/login''"
  show "fetch rt request env w =
        (Inr (redirect
                (authUrl env (parsed_url request)
                   (if truthy (searchParams (parsed_url request) ''origin'') \<and>
                       str (searchParams (parsed_url request) ''origin'')
                         \<in> set (getAllowedOrigins env)
                    then str (searchParams (parsed_url request) ''origin'')
                    else if truthy (Request.headers request ''Origin'') \<and>
                            str (Request.headers request ''Origin'') \<in> set (getAllowedOrigins env)
                    then str (Request.headers request ''Origin'')
                    else if truthy (Request.headers request ''Referer'') \<and>
                            ro \<in> set (getAllowedOrigins env)
                    then ro else hd (getAllowedOrigins env)))
                302), w)"
  proof (cases "truthy (searchParams (parsed_url request) ''origin'') \<and>
          str (searchParams (parsed_url request) ''origin'') \<in> set (getAllowedOrigins env)")
    case True
    then show ?thesis
      using r by (simp add: fetch_def handleLogin_def Let_def)
  next
    case False
    have g: "getRequestOrigin rt request env =
         Inr (if truthy (Request.headers request ''Origin'') \<and>
                 str (Request.headers request ''Origin'') \<in> set (getAllowedOrigins env)
              then str (Request.headers request ''Origin'')
              else if truthy (Request.headers request ''Referer'') \<and>
                      ro \<in> set (getAllowedOrigins env)
              then ro else hd (getAllowedOrigins env))"
    proof (rule getRequestOrigin_resolved)
      assume "\<not> (truthy (Request.headers request ''Origin'') \<and>
            str (Request.headers request ''Origin'') \<in> set (getAllowedOrigins env))"
        and "truthy (Request.headers request ''Referer'')"
      with h False show "URL_origin rt (str (Request.headers request ''Referer'')) = Some ro"
        by blast
    qed
    show ?thesis
      using False r by (auto simp: fetch_def handleLogin_def Let_def g)
  qed
qed

text \<open>The query parameter wins over an allowed Origin header, and the Referer, which is
  not a URL, is never read.\<close>

theorem login_origin_priority_witness:
  "fetch example_runtime
     (example_request ''GET'' ''/auth/login'' [''origin'' \<mapsto> ''https://b.example.com'']
        [''Origin'' \<mapsto> ''https://a.example.com'', ''Referer'' \<mapsto> ''not a url''])
     example_env example_world =
   (Inr (redirect
           (authUrl example_env
              \<lparr>origin = ''https://auth.example.com'', pathname = ''/auth/login'',
               searchParams = [''origin'' \<mapsto> ''https://b.example.com'']\<rparr>
              ''https://b.example.com'')
           302), example_world)"
  using login_origin_priority
    [of "example_request ''GET'' ''/auth/login'' [''origin'' \<mapsto> ''https://b.example.com'']
        [''Origin'' \<mapsto> ''https://a.example.com'', ''Referer'' \<mapsto> ''not a url'']"
        example_env example_runtime "''x''" example_world]
  by (simp add: example_request_def truthy_def str_def example_allowed)

text \<open>
  The claim as first stated fails: on \<open>/auth/status\<close> an allowed \<open>origin\<close> query parameter
  is not consulted, and the response is for the first entry.
\<close>

theorem origin_priority_counterexample:
  "fst (fetch example_runtime
          (example_request ''GET'' ''/auth/status'' [''origin'' \<mapsto> ''https://b.example.com''] Map.empty)
          example_env example_world) =
     Inr \<lparr>status = 200, headers = corsHeaders ''https://a.example.com'',
          body = JSON [(''authenticated'', JBool False)]\<rparr>
   \<and> ''https://b.example.com'' \<in> set (getAllowedOrigins example_env)"
  by (simp add: fetch_def handleStatus_def getSessionId_def corsResponse_def getRequestOrigin_def
      new_Response_def Let_def example_request_def truthy_def str_def example_allowed)

text \<open>The redirect of the example, as text.\<close>

lemma example_authUrl:
  "authUrl example_env
     \<lparr>origin = ''https://auth.example.com'', pathname = ''/auth/login'',
      searchParams = [''origin'' \<mapsto> ''https://b.example.com'']\<rparr>
     ''https://b.example.com'' =
   ''https://accounts.google.com/o/oauth2/v2/auth?client_id=client-id&redirect_uri=https%3A%2F%2Fauth.example.com%2Fauth%2Fcallback&response_type=code&scope=https%3A%2F%2Fwww.googleapis.com%2Fauth%2Fdrive.appdata&access_type=offline&prompt=consent&state=https%3A%2F%2Fb.example.com''"
  by (simp add: authUrl_def URL_toString_def formEncode_def alnum_def pctEncode_def
      GOOGLE_SCOPES_def example_env_def)


subsection \<open>Token, status and logout when the origin resolves\<close>

text \<open>What the three handlers do for a request on which \<open>getRequestOrigin\<close> returns \<open>h\<close>
  and whose session identifier, if any, is a key the KV binding accepts.\<close>

lemma getSessionId_truthy: "truthy (getSessionId request) \<longleftrightarrow> getSessionId request \<noteq> None"
  by (auto simp: truthy_def getSessionId_def dest: match_session_nonempty split: option.splits)

lemma handleToken_no_session:
  assumes "getRequestOrigin rt request env = Inr h" and "getSessionId request = None"
  shows "handleToken rt request env w =
           (Inr \<lparr>status = 401, headers = corsHeaders h,
                 body = JSON [(''error'', JString ''Not authenticated''),
                              (''code'', JString ''NO_SESSION'')]\<rparr>, w)"
  using assms by (simp add: handleToken_def Let_def truthy_def corsResponse_returns)

lemma handleToken_session_expired:
  assumes "getRequestOrigin rt request env = Inr h" and "getSessionId request = Some sid"
    and "validKey sid" and "TOKENS w sid = None"
  shows "handleToken rt request env w =
           (Inr \<lparr>status = 401, headers = corsHeaders h,
                 body = JSON [(''error'', JString ''Session expired''),
                              (''code'', JString ''SESSION_EXPIRED'')]\<rparr>, w)"
  using assms getSessionId_truthy [of request]
  by (simp add: handleToken_def Let_def str_def KV_get_def corsResponse_returns)

lemma handleToken_refresh_failed:
  assumes "getRequestOrigin rt request env = Inr h" and "getSessionId request = Some sid"
    and "validKey sid" and "TOKENS w sid = Some stored"
    and "token_endpoint rt
           [(''refresh_token'', TokenData.refresh_token (kv_value stored)),
            (''client_id'', GOOGLE_CLIENT_ID env),
            (''client_secret'', GOOGLE_CLIENT_SECRET env),
            (''grant_type'', ''refresh_token'')] = Some tokens"
    and "error tokens = Some ''invalid_grant''"
  shows "fst (handleToken rt request env w) =
           Inr \<lparr>status = 401,
                headers = corsHeaders h ++ [''Set-Cookie'' \<mapsto> buildSessionCookie [] 0],
                body = JSON [(''error'', JString ''Session invalidated''),
                             (''code'', JString ''REFRESH_FAILED'')]\<rparr>
         \<and> TOKENS (snd (handleToken rt request env w)) = (TOKENS w)(sid := None)"
  using assms getSessionId_truthy [of request]
  by (simp add: handleToken_def Let_def str_def truthy_def KV_get_def KV_delete_def
      corsResponse_returns)

lemma handleToken_refresh_error:
  assumes "getRequestOrigin rt request env = Inr h" and "getSessionId request = Some sid"
    and "validKey sid" and "TOKENS w sid = Some stored"
    and "token_endpoint rt
           [(''refresh_token'', TokenData.refresh_token (kv_value stored)),
            (''client_id'', GOOGLE_CLIENT_ID env),
            (''client_secret'', GOOGLE_CLIENT_SECRET env),
            (''grant_type'', ''refresh_token'')] = Some tokens"
    and "truthy (error tokens)" and "error tokens \<noteq> Some ''invalid_grant''"
  shows "fst (handleToken rt request env w) =
           Inr \<lparr>status = 500, headers = corsHeaders h,
                body = JSON [(''error'', JString ''Token refresh failed''),
                             (''code'', JString ''REFRESH_ERROR'')]\<rparr>
         \<and> TOKENS (snd (handleToken rt request env w)) = TOKENS w"
  using assms getSessionId_truthy [of request]
  by (simp add: handleToken_def Let_def str_def KV_get_def corsResponse_returns)

text \<open>\<open>handleStatus\<close> leaves the store and the call log as they are, on every request.\<close>

lemma handleStatus_reads_only:
  "snd (handleStatus rt request env w) = w"
  by (simp add: handleStatus_def Let_def split: option.splits sum.splits)

lemma handleStatus_unauthenticated:
  assumes "getRequestOrigin rt request env = Inr h"
    and "getSessionId request = None \<or>
         (\<exists>sid. getSessionId request = Some sid \<and> validKey sid \<and> TOKENS w sid = None)"
  shows "fst (handleStatus rt request env w) =
           Inr \<lparr>status = 200, headers = corsHeaders h,
                body = JSON [(''authenticated'', JBool False)]\<rparr>"
  using assms getSessionId_truthy [of request]
  by (auto simp: handleStatus_def Let_def str_def KV_get_def corsResponse_returns)

lemma handleStatus_authenticated:
  assumes "getRequestOrigin rt request env = Inr h"
    and "getSessionId request = Some sid" and "validKey sid" and "TOKENS w sid = Some stored"
  shows "fst (handleStatus rt request env w) =
           Inr \<lparr>status = 200, headers = corsHeaders h,
                body = JSON [(''authenticated'', JBool True),
                             (''sessionCreated'', JNumber (created (kv_value stored)))]\<rparr>"
  using assms getSessionId_truthy [of request]
  by (auto simp: handleStatus_def Let_def str_def KV_get_def corsResponse_returns)

text \<open>\<open>handleLogout\<close> deletes the record of the extracted identifier when the binding
  accepts the key, and a second call changes nothing more.\<close>

lemma handleLogout_store:
  "snd (handleLogout rt request env w) =
     (case getSessionId request of
        None \<Rightarrow> w
      | Some sid \<Rightarrow> if validKey sid then w\<lparr>TOKENS := (TOKENS w)(sid := None)\<rparr> else w)"
  using getSessionId_truthy [of request]
  by (auto simp: handleLogout_def Let_def str_def KV_delete_def split: option.splits)

lemma handleLogout_twice:
  "snd (handleLogout rt request env (snd (handleLogout rt request env w))) =
   snd (handleLogout rt request env w)"
  by (simp add: handleLogout_store split: option.splits)

lemma handleLogout_response:
  assumes "getRequestOrigin rt request env = Inr h"
    and "getSessionId request = None \<or> (\<exists>sid. getSessionId request = Some sid \<and> validKey sid)"
  shows "fst (handleLogout rt request env w) =
           Inr \<lparr>status = 200,
                headers = corsHeaders h ++ [''Set-Cookie'' \<mapsto> buildSessionCookie [] 0],
                body = JSON [(''success'', JBool True)]\<rparr>"
  using assms getSessionId_truthy [of request]
  by (auto simp: handleLogout_def Let_def str_def KV_delete_def corsResponse_returns)

text \<open>A session identifier that the KV binding rejects ends each of the three handlers
  with the error of the binding.\<close>

lemma invalid_key_throws:
  assumes "getSessionId request = Some sid" and "\<not> validKey sid"
  shows "fst (handleToken rt request env w) = Inl KVError"
    and "fst (handleStatus rt request env w) = Inl KVError"
    and "fst (handleLogout rt request env w) = Inl KVError"
  using assms getSessionId_truthy [of request]
  by (simp_all add: handleToken_def handleStatus_def handleLogout_def Let_def str_def
      KV_get_def KV_delete_def)

subsection \<open>A Referer header that is not a URL\<close>

text \<open>
  With no Origin header and the Referer header \<open>not a url\<close>, \<open>getRequestOrigin\<close> throws, so
  no response can be built by \<open>corsResponse\<close>.
\<close>

lemma example_malformed_referer:
  "getRequestOrigin example_runtime (example_request m path params (hs(''Origin'' := None, ''Referer'' \<mapsto> ''not a url'')))
     env = Inl TypeError"
  by (rule getRequestOrigin_throws)
     (simp_all add: example_request_def example_runtime_def example_URL_origin_def truthy_def str_def)

text \<open>
  Claim C1. A \<open>/auth/token\<close> request with no session cookie is to be answered 401 with code
  \<open>NO_SESSION\<close> (\<open>handleToken_no_session\<close>, when no identifier is extracted and the origin
  resolves; the lemmas beside it give the other three answers of the claim, when the
  origin resolves and the KV binding accepts the key). Two requests without a cookie named \<open>session\<close> are not: with the Referer
  header \<open>not a url\<close> and no Origin header the request ends with the TypeError of the URL
  constructor and no response; with the only cookie \<open>xsession=v\<close> the answer is 401 with
  code \<open>SESSION_EXPIRED\<close>.
\<close>

theorem handleToken_no_cookie_failures:
  "fetch example_runtime
     (example_request ''GET'' ''/auth/token'' Map.empty [''Referer'' \<mapsto> ''not a url''])
     example_env example_world = (Inl TypeError, example_world)
   \<and> fetch example_runtime
     (example_request ''GET'' ''/auth/token'' Map.empty [''Cookie'' \<mapsto> ''xsession=v''])
     example_env example_world =
       (Inr \<lparr>status = 401, headers = corsHeaders ''https://a.example.com'',
             body = JSON [(''error'', JString ''Session expired''),
                          (''code'', JString ''SESSION_EXPIRED'')]\<rparr>, example_world)
   \<and> ''session'' \<notin> set (cookie_names ''xsession=v'')"
proof -
  have 1: "fetch example_runtime
     (example_request ''GET'' ''/auth/token'' Map.empty [''Referer'' \<mapsto> ''not a url''])
     example_env example_world = (Inl TypeError, example_world)"
    using example_malformed_referer [of "''GET''" "''/auth/token''" Map.empty Map.empty example_env]
    by (simp add: fetch_def handleToken_def getSessionId_def Let_def truthy_def str_def
        corsResponse_throws example_request_def)
  have g: "getRequestOrigin example_runtime
     (example_request ''GET'' ''/auth/token'' Map.empty [''Cookie'' \<mapsto> ''xsession=v''])
     example_env = Inr ''https://a.example.com''"
    by (simp add: getRequestOrigin_def Let_def example_request_def truthy_def example_allowed)
  have s: "getSessionId
     (example_request ''GET'' ''/auth/token'' Map.empty [''Cookie'' \<mapsto> ''xsession=v''])
     = Some ''v''"
    by (simp add: getSessionId_def str_def Let_def example_request_def)
  have "handleToken example_runtime
     (example_request ''GET'' ''/auth/token'' Map.empty [''Cookie'' \<mapsto> ''xsession=v''])
     example_env example_world =
       (Inr \<lparr>status = 401, headers = corsHeaders ''https://a.example.com'',
             body = JSON [(''error'', JString ''Session expired''),
                          (''code'', JString ''SESSION_EXPIRED'')]\<rparr>, example_world)"
    by (rule handleToken_session_expired [OF g s]) (simp_all add: validKey_def example_world_def)
  then have 2: "fetch example_runtime
     (example_request ''GET'' ''/auth/token'' Map.empty [''Cookie'' \<mapsto> ''xsession=v''])
     example_env example_world =
       (Inr \<lparr>status = 401, headers = corsHeaders ''https://a.example.com'',
             body = JSON [(''error'', JString ''Session expired''),
                          (''code'', JString ''SESSION_EXPIRED'')]\<rparr>, example_world)"
    by (simp add: fetch_def Let_def example_request_def)
  have 3: "''session'' \<notin> set (cookie_names ''xsession=v'')"
    by (simp add: cookie_names_def)
  from 1 2 3 show ?thesis by blast
qed

text \<open>
  Claim C7. \<open>/auth/status\<close> never calls the token endpoint and never writes the store
  (\<open>handleStatus_reads_only\<close>), and answers 200 when the origin resolves and the KV
  binding accepts the key (\<open>handleStatus_unauthenticated\<close>, \<open>handleStatus_authenticated\<close>). With the cookie of the
  stored session \<open>s1\<close>, the Referer header \<open>not a url\<close> and no Origin header the request ends
  with the TypeError of the URL constructor and no response.
\<close>

theorem handleStatus_malformed_referer:
  "fetch example_runtime
     (example_request ''GET'' ''/auth/status'' Map.empty
        [''Cookie'' \<mapsto> ''session=s1'', ''Referer'' \<mapsto> ''not a url''])
     example_env example_world = (Inl TypeError, example_world)
   \<and> TOKENS example_world ''s1'' \<noteq> None"
  using example_malformed_referer [of "''GET''" "''/auth/status''" Map.empty
      "[''Cookie'' \<mapsto> ''session=s1'']" example_env]
  by (simp add: fetch_def handleStatus_def getSessionId_def Let_def truthy_def str_def
      KV_get_def validKey_def corsResponse_throws example_request_def example_world_def
      fun_upd_twist)

text \<open>
  Claim C8. \<open>/auth/logout\<close> deletes the record of the cookie's session, a second call
  leaves the store as the first did (\<open>handleLogout_twice\<close>), and the answer is 200 with a
  cleared cookie when the origin resolves and the KV binding accepts the key
  (\<open>handleLogout_response\<close>). With the cookie of the
  stored session \<open>s1\<close>, the Referer header \<open>not a url\<close> and no Origin header the record is
  deleted and the request ends with the TypeError of the URL constructor and no response.
\<close>

theorem handleLogout_malformed_referer:
  "fst (fetch example_runtime
     (example_request ''POST'' ''/auth/logout'' Map.empty
        [''Cookie'' \<mapsto> ''session=s1'', ''Referer'' \<mapsto> ''not a url''])
     example_env example_world) = Inl TypeError
   \<and> TOKENS (snd (fetch example_runtime
     (example_request ''POST'' ''/auth/logout'' Map.empty
        [''Cookie'' \<mapsto> ''session=s1'', ''Referer'' \<mapsto> ''not a url''])
     example_env example_world)) ''s1'' = None"
  using example_malformed_referer [of "''POST''" "''/auth/logout''" Map.empty
      "[''Cookie'' \<mapsto> ''session=s1'']" example_env]
  by (simp add: fetch_def handleLogout_def getSessionId_def Let_def truthy_def str_def
      KV_delete_def validKey_def corsResponse_throws example_request_def fun_upd_twist)

text \<open>
  Claim C9. No exception is to leave \<open>fetch\<close>. A \<open>/auth/login\<close> request with the Referer
  header \<open>not a url\<close>, no Origin header and no \<open>origin\<close> parameter makes \<open>handleLogin\<close>
  throw; the \<open>catch\<close> block throws the same TypeError while building its 500 response
  (\<open>fetch_catch_rethrows\<close>), and \<open>fetch\<close> ends with it.
\<close>

theorem fetch_unhandled_exception:
  "fetch example_runtime
     (example_request ''GET'' ''/auth/login'' Map.empty [''Referer'' \<mapsto> ''not a url''])
     example_env example_world = (Inl TypeError, example_world)"
proof -
  have g: "getRequestOrigin example_runtime
     (example_request ''GET'' ''/auth/login'' Map.empty [''Referer'' \<mapsto> ''not a url''])
     example_env = Inl TypeError"
    using example_malformed_referer [of "''GET''" "''/auth/login''" Map.empty Map.empty example_env]
    by simp
  have "handleLogin example_runtime
     (example_request ''GET'' ''/auth/login'' Map.empty [''Referer'' \<mapsto> ''not a url''])
     example_env (parsed_url (example_request ''GET'' ''/auth/login'' Map.empty [''Referer'' \<mapsto> ''not a url'']))
     = Inl TypeError"
    by (simp add: handleLogin_def Let_def g) (simp add: example_request_def truthy_def)
  from fetch_catch_rethrows [OF _ _ this] show ?thesis
    by (simp add: example_request_def)
qed

end
